theory Spec2Isabelle
  imports Main "HOL-Library.Word"
begin

unbundle bit_operations_syntax

section \<open>Data of the system-call layer\<close>

type_synonym u32 = "32 word"
type_synonym u64 = "64 word"

subsection \<open>Results\<close>

text \<open>
  \<open>syscall_result\<close> is a code and a 64-bit data word. The enumerators of
  \<open>syscall_result_code\<close> are the three the kernel source uses.
\<close>

datatype syscall_result_code = ok | not_found | not_supported

record syscall_result =
  code :: syscall_result_code
  data :: u64

text \<open>
  An \<open>operation_result\<close> comes back from an object operation. Its code belongs to
  another enumeration; the model keeps the underlying integer of that enumerator.
\<close>

record operation_result =
  o_code :: int
  o_data :: u64

subsection \<open>Directory entries (\<open>stacsos/dirent.h\<close>)\<close>

definition MAX_FILE_NAME_LENGTH :: nat where
  "MAX_FILE_NAME_LENGTH = 64"

definition NUL :: char where
  "NUL = CHR 0x00"

text \<open>
  \<open>struct dirent\<close>: the array \<open>char name[64]\<close> is a list of bytes, \<open>type\<close> a byte and
  \<open>size\<close> an \<open>unsigned int\<close>. On x86-64 the array takes bytes 0 to 63, \<open>type\<close> byte 64,
  three bytes pad \<open>size\<close> to offset 68, and the record is 72 bytes long.
\<close>

record dirent =
  ent_name :: "char list"
  ent_type :: char
  ent_size :: u32

definition sizeof_dirent :: u64 where
  "sizeof_dirent = 72"

subsection \<open>Kernel objects\<close>

text \<open>
  An object answers the operations the dispatcher forwards. Each operation is a function
  of the forwarded arguments to the \<open>operation_result\<close> it yields.
\<close>

record object =
  obj_write :: "u64 \<Rightarrow> u64 \<Rightarrow> operation_result"
  obj_pwrite :: "u64 \<Rightarrow> u64 \<Rightarrow> u64 \<Rightarrow> operation_result"
  obj_read :: "u64 \<Rightarrow> u64 \<Rightarrow> operation_result"
  obj_pread :: "u64 \<Rightarrow> u64 \<Rightarrow> u64 \<Rightarrow> operation_result"
  obj_ioctl :: "u64 \<Rightarrow> u64 \<Rightarrow> u64 \<Rightarrow> operation_result"
  wait_for_status_change :: operation_result
  join :: operation_result

subsection \<open>Filesystem nodes\<close>

datatype fs_node_kind = k_file | k_directory

text \<open>
  A node has a kind, a name, a byte size and the children a directory holds once
  \<open>ensure_loaded\<close> has run, in the order the iteration visits them. \<open>node_open\<close> is
  what \<open>open()\<close> returns: the file, or nothing. The byte size is a natural number: the
  type that \<open>size()\<close> returns is declared outside the sources, and \<open>do_readdir\<close> casts
  the value to \<open>unsigned int\<close>.
\<close>

datatype fs_node =
  Fs_node (kind: fs_node_kind) (name: string) (node_size: nat)
    (children: "fs_node list") (node_open: "object option")

subsection \<open>Memory regions\<close>

text \<open>
  A region of the address space: \<open>base\<close>, \<open>size\<close>, \<open>flags\<close>, and the kernel address
  \<open>storage->base_address_ptr()\<close> of its backing storage.
\<close>

record region =
  base :: u64
  rgn_size :: u64
  flags :: u64
  storage :: u64

subsection \<open>Declarations of headers that are not part of the sources\<close>

datatype syscall_numbers =
  exit | set_fs | set_gs | sys_open | sys_close | sys_write | sys_pwrite | sys_read
  | sys_pread | sys_ioctl | alloc_mem | start_process | wait_for_process | start_thread
  | stop_current_thread | join_thread | sleep | poweroff | readdir

text \<open>
  The values of the enumerators of \<open>syscall_numbers\<close>, the masks \<open>region_flags::writable\<close>
  and \<open>region_flags::readwrite\<close>, the macro \<open>PAGE_ALIGN_UP\<close> and the cast from an
  operation's code to a \<open>syscall_result_code\<close> are declared in headers outside the
  sources. They are parameters of the model.
\<close>

record headers =
  num :: "syscall_numbers \<Rightarrow> u64"
  writable :: u64
  readwrite :: u64
  PAGE_ALIGN_UP :: "u64 \<Rightarrow> u64"
  cast_code :: "int \<Rightarrow> syscall_result_code"

subsection \<open>The kernel as the system calls see it\<close>

text \<open>Calls to collaborators that only have an effect are recorded as events.\<close>

datatype event =
  Process_stop
  | Fsbase_write u64
  | Gsbase_write u64
  | Free_object u64
  | Object_call syscall_numbers u64 "u64 list"
  | Dprintf string "u64 list"
  | Process_start
  | Thread_start
  | Thread_stop
  | Interrupt_0xff
  | Sleep_ms u64
  | Outw u64 u64

text \<open>
  \<open>vfs\<close> is \<open>vfs::get().lookup\<close>; \<open>regions\<close> the regions of the calling process's
  address space; \<open>objects\<close> the calling process's handles; \<open>cstring\<close> the C string
  that user memory holds at an address. \<open>new_id\<close>, \<open>create_process\<close>,
  \<open>create_thread\<close> and \<open>alloc_region\<close> give what the object manager, the process
  manager, the process and the address space return; a region that \<open>alloc_region\<close> returns
  joins \<open>regions\<close>. \<open>lookups\<close> lists the paths looked
  up, \<open>visited\<close> the children whose name, kind and size were read, \<open>copied\<close> the
  records copied with \<open>memcpy\<close> and the kernel addresses they went to, \<open>events\<close> all
  other effects, each in the order of the calls.
\<close>

record kernel =
  vfs :: "string \<Rightarrow> fs_node option"
  regions :: "region list"
  objects :: "u64 \<Rightarrow> object option"
  cstring :: "u64 \<Rightarrow> string"
  new_id :: "object \<Rightarrow> u64"
  create_process :: "string \<Rightarrow> string \<Rightarrow> object option"
  create_thread :: "u64 \<Rightarrow> u64 \<Rightarrow> object"
  alloc_region :: "u64 \<Rightarrow> u64 \<Rightarrow> region"
  lookups :: "string list"
  visited :: "fs_node list"
  copied :: "(u64 \<times> dirent) list"
  events :: "event list"

section \<open>Directory enumeration: \<open>do_readdir\<close>\<close>

subsection \<open>Building one record\<close>

text \<open>
  Writes into the 64-byte array are checked: a write or a read past the end of an array is
  the fault \<open>Out_of_bounds\<close>.
\<close>

datatype fault = Out_of_bounds

definition c_str :: "string \<Rightarrow> char list" where
  "c_str s = s @ [NUL]"

definition memcpy_chars :: "char list \<Rightarrow> char list \<Rightarrow> nat \<Rightarrow> fault + char list" where
  "memcpy_chars dst src n =
     (if n \<le> length dst \<and> n \<le> length src then Inr (take n src @ drop n dst)
      else Inl Out_of_bounds)"

definition store_char :: "char list \<Rightarrow> nat \<Rightarrow> char \<Rightarrow> fault + char list" where
  "store_char a i c = (if i < length a then Inr (a[i := c]) else Inl Out_of_bounds)"

text \<open>
  Lines 105 to 121: \<open>dirent ent = {}\<close> zeroes the record, the name is copied with its
  length cut to 63 when it is 64 or more, a terminator is stored after it, and type and
  size are set from the child's kind. The cast \<open>(unsigned int)child->size()\<close> keeps the
  size modulo \<open>2^32\<close>.
\<close>

definition build_dirent :: "fs_node \<Rightarrow> fault + dirent" where
  "build_dirent child =
     (let nm = name child;
          len = (if length nm \<ge> MAX_FILE_NAME_LENGTH then MAX_FILE_NAME_LENGTH - 1
                 else length nm)
      in case memcpy_chars (replicate MAX_FILE_NAME_LENGTH NUL) (c_str nm) len of
           Inl f \<Rightarrow> Inl f
         | Inr copied_name \<Rightarrow>
             (case store_char copied_name len NUL of
                Inl f \<Rightarrow> Inl f
              | Inr terminated \<Rightarrow>
                  Inr \<lparr>ent_name = terminated,
                       ent_type = (if kind child = k_directory then CHR ''d'' else CHR ''f''),
                       ent_size = (if kind child = k_file
                                   then word_of_nat (node_size child mod 2 ^ 32) else 0)\<rparr>))"

subsection \<open>Validating a destination\<close>

text \<open>
  Modelled from the spec: \<open>address_space::get_region_from_address\<close> is defined outside
  the sources. It looks up the region containing the address in the process's region set;
  a region contains the addresses from its base up to, not including, its base plus its
  size.
\<close>

definition contains :: "region \<Rightarrow> u64 \<Rightarrow> bool" where
  "contains r a \<longleftrightarrow> unat (base r) \<le> unat a \<and> unat a < unat (base r) + unat (rgn_size r)"

definition get_region_from_address :: "region list \<Rightarrow> u64 \<Rightarrow> region option" where
  "get_region_from_address rs a = find (\<lambda>r. contains r a) rs"

text \<open>
  Lines 133 to 147: the three checks that end the call with \<open>not_supported\<close> (here
  \<open>None\<close>), and the kernel address of the destination otherwise. The sums are 64-bit
  sums, as in the source.
\<close>

definition validate_dst :: "headers \<Rightarrow> region list \<Rightarrow> u64 \<Rightarrow> u64 option" where
  "validate_dst H rs dst_address =
     (case get_region_from_address rs dst_address of
        None \<Rightarrow> None
      | Some rgn \<Rightarrow>
          if dst_address + sizeof_dirent > base rgn + rgn_size rgn then None
          else if flags rgn AND writable H = 0 then None
          else let offset = dst_address - base rgn in Some (storage rgn + offset))"

subsection \<open>The loop over the children\<close>

text \<open>
  Lines 126 and 127, the address of record number \<open>counter\<close> of the user buffer:
  \<open>(dirent *)user_buf + counter\<close>, in 64-bit arithmetic.
\<close>

definition dst_of :: "u64 \<Rightarrow> u64 \<Rightarrow> u64" where
  "dst_of user_buf counter = user_buf + counter * sizeof_dirent"

text \<open>
  Lines 100 to 153. The loop stops at the cap before it reads anything of the child; a
  destination that does not validate ends the call; otherwise the record is copied and
  the counter advances.
\<close>

fun readdir_loop ::
  "headers \<Rightarrow> kernel \<Rightarrow> u64 \<Rightarrow> u64 \<Rightarrow> fs_node list \<Rightarrow> u64 \<Rightarrow> fault + syscall_result \<times> kernel"
where
  "readdir_loop H k user_buf max_entries [] counter =
     Inr (\<lparr>code = ok, data = counter\<rparr>, k)"
| "readdir_loop H k user_buf max_entries (child # rest) counter =
     (if counter \<ge> max_entries then Inr (\<lparr>code = ok, data = counter\<rparr>, k)
      else
        case build_dirent child of
          Inl f \<Rightarrow> Inl f
        | Inr ent \<Rightarrow>
            let k1 = k\<lparr>visited := visited k @ [child]\<rparr>;
                dst_address = dst_of user_buf counter
            in case validate_dst H (regions k1) dst_address of
                 None \<Rightarrow> Inr (\<lparr>code = not_supported, data = 0\<rparr>, k1)
               | Some kdst \<Rightarrow>
                   readdir_loop H (k1\<lparr>copied := copied k1 @ [(kdst, ent)]\<rparr>)
                     user_buf max_entries rest (counter + 1))"

subsection \<open>Path handling\<close>

definition vfs_lookup :: "kernel \<Rightarrow> string \<Rightarrow> fs_node option \<times> kernel" where
  "vfs_lookup k p = (vfs k p, k\<lparr>lookups := lookups k @ [p]\<rparr>)"

text \<open>
  Lines 64 to 154. The path is \<open>None\<close> for a null pointer, and the characters before
  the terminator otherwise. The \<open>static_cast\<close> of a pointer that is not null is not
  null, so its check never fires. \<open>ensure_loaded\<close> belongs to the filesystem: \<open>children\<close>
  are the children it has loaded.
\<close>

definition do_readdir ::
  "headers \<Rightarrow> kernel \<Rightarrow> string option \<Rightarrow> u64 \<Rightarrow> u64 \<Rightarrow> fault + syscall_result \<times> kernel"
where
  "do_readdir H k path user_buf max_entries =
     (let looked_up =
            (if path = None \<or> path = Some [] then Some (vfs_lookup k ''/'')
             else if hd (the path) = CHR ''/'' then Some (vfs_lookup k (the path))
             else None)
      in case looked_up of
           None \<Rightarrow> Inr (\<lparr>code = not_supported, data = 0\<rparr>, k)
         | Some (None, k1) \<Rightarrow> Inr (\<lparr>code = not_found, data = 0\<rparr>, k1)
         | Some (Some node, k1) \<Rightarrow>
             if kind node \<noteq> k_directory then Inr (\<lparr>code = not_supported, data = 0\<rparr>, k1)
             else readdir_loop H k1 user_buf max_entries (children node) 0)"


text \<open>
  The record the specification describes for a child: the name cut to 63 bytes and padded
  with terminators to 64, the type from the kind, the size for a file (as an
  \<open>unsigned int\<close>, modulo \<open>2^32\<close>) and 0 otherwise. It is compared with \<open>build_dirent\<close>
  below.
\<close>

definition entry_for :: "fs_node \<Rightarrow> dirent" where
  "entry_for c =
     \<lparr>ent_name = take 63 (name c) @ replicate (64 - min 63 (length (name c))) NUL,
      ent_type = (if kind c = k_directory then CHR ''d'' else CHR ''f''),
      ent_size = (if kind c = k_file then word_of_nat (node_size c mod 2 ^ 32) else 0)\<rparr>"

text \<open>
  Lines 70 to 78: the path that is looked up. A null pointer and the empty string are
  looked up as \<open>/\<close>, a path that starts with \<open>/\<close> as it is.
\<close>

definition looks_up :: "string option \<Rightarrow> string \<Rightarrow> bool" where
  "looks_up path p \<longleftrightarrow>
     (path = None \<or> path = Some []) \<and> p = ''/'' \<or> path = Some p \<and> p \<noteq> [] \<and> hd p = CHR ''/''"

section \<open>The dispatcher: \<open>handle_syscall\<close>\<close>

definition operation_result_to_syscall_result :: "headers \<Rightarrow> operation_result \<Rightarrow> syscall_result"
where
  "operation_result_to_syscall_result H r = \<lparr>code = cast_code H (o_code r), data = o_data r\<rparr>"

text \<open>
  Modelled from the spec: the object manager is outside the sources. \<open>get_object\<close> is
  the look-up in \<open>objects\<close>; \<open>free_object\<close> releases the handle; creating an object
  puts it under the handle \<open>new_id\<close> gives.
\<close>

definition free_object :: "kernel \<Rightarrow> u64 \<Rightarrow> kernel" where
  "free_object k h = k\<lparr>objects := (objects k)(h := None), events := events k @ [Free_object h]\<rparr>"

definition create_object :: "kernel \<Rightarrow> object \<Rightarrow> u64 \<times> kernel" where
  "create_object k ob = (new_id k ob, k\<lparr>objects := (objects k)(new_id k ob \<mapsto> ob)\<rparr>)"

definition emit :: "kernel \<Rightarrow> event list \<Rightarrow> kernel" where
  "emit k es = k\<lparr>events := events k @ es\<rparr>"

text \<open>Lines 31 to 45.\<close>

definition do_open :: "kernel \<Rightarrow> string \<Rightarrow> syscall_result \<times> kernel" where
  "do_open k path =
     (case vfs_lookup k path of
        (None, k1) \<Rightarrow> (\<lparr>code = not_found, data = 0\<rparr>, k1)
      | (Some node, k1) \<Rightarrow>
          (case node_open node of
             None \<Rightarrow> (\<lparr>code = not_supported, data = 0\<rparr>, k1)
           | Some f \<Rightarrow>
               (case create_object k1 f of (h, k2) \<Rightarrow> (\<lparr>code = ok, data = h\<rparr>, k2))))"

text \<open>
  The \<open>switch\<close> goes to the label whose value is the opcode, and to \<open>default\<close> when
  there is none.
\<close>

definition decode :: "headers \<Rightarrow> u64 \<Rightarrow> syscall_numbers option" where
  "decode H index =
     find (\<lambda>s. num H s = index)
       [exit, set_fs, set_gs, sys_open, sys_close, sys_write, sys_pwrite, sys_read,
        sys_pread, sys_ioctl, alloc_mem, start_process, wait_for_process, start_thread,
        stop_current_thread, join_thread, sleep, poweroff, readdir]"

text \<open>
  The handle-consuming cases share their shape: look the object up, answer \<open>not_found\<close>
  when there is none, and translate the result of the object's operation otherwise.
\<close>

definition forward ::
  "headers \<Rightarrow> kernel \<Rightarrow> syscall_numbers \<Rightarrow> u64 \<Rightarrow> u64 list \<Rightarrow> (object \<Rightarrow> operation_result)
     \<Rightarrow> syscall_result \<times> kernel"
where
  "forward H k s h args operation =
     (case objects k h of
        None \<Rightarrow> (\<lparr>code = not_found, data = 0\<rparr>, k)
      | Some ob \<Rightarrow>
          (operation_result_to_syscall_result H (operation ob), emit k [Object_call s h args]))"

text \<open>Lines 156 to 298.\<close>

definition handle_syscall ::
  "headers \<Rightarrow> kernel \<Rightarrow> u64 \<Rightarrow> u64 \<Rightarrow> u64 \<Rightarrow> u64 \<Rightarrow> u64 \<Rightarrow> fault + syscall_result \<times> kernel"
where
  "handle_syscall H k index arg0 arg1 arg2 arg3 =
     (case decode H index of
        Some exit \<Rightarrow> Inr (\<lparr>code = ok, data = 0\<rparr>, emit k [Process_stop])
      | Some set_fs \<Rightarrow> Inr (\<lparr>code = ok, data = 0\<rparr>, emit k [Fsbase_write arg0])
      | Some set_gs \<Rightarrow> Inr (\<lparr>code = ok, data = 0\<rparr>, emit k [Gsbase_write arg0])
      | Some sys_open \<Rightarrow> Inr (do_open k (cstring k arg0))
      | Some sys_close \<Rightarrow> Inr (\<lparr>code = ok, data = 0\<rparr>, free_object k arg0)
      | Some sys_write \<Rightarrow>
          Inr (forward H k sys_write arg0 [arg1, arg2] (\<lambda>ob. obj_write ob arg1 arg2))
      | Some sys_pwrite \<Rightarrow>
          Inr (forward H k sys_pwrite arg0 [arg1, arg2, arg3] (\<lambda>ob. obj_pwrite ob arg1 arg2 arg3))
      | Some sys_read \<Rightarrow>
          Inr (forward H k sys_read arg0 [arg1, arg2] (\<lambda>ob. obj_read ob arg1 arg2))
      | Some sys_pread \<Rightarrow>
          Inr (forward H k sys_pread arg0 [arg1, arg2, arg3] (\<lambda>ob. obj_pread ob arg1 arg2 arg3))
      | Some sys_ioctl \<Rightarrow>
          Inr (forward H k sys_ioctl arg0 [arg1, arg2, arg3] (\<lambda>ob. obj_ioctl ob arg1 arg2 arg3))
      | Some alloc_mem \<Rightarrow>
          (let rgn = alloc_region k (PAGE_ALIGN_UP H arg0) (readwrite H)
           in Inr (\<lparr>code = ok, data = base rgn\<rparr>, k\<lparr>regions := regions k @ [rgn]\<rparr>))
      | Some start_process \<Rightarrow>
          (let k1 = emit k [Dprintf (''start process: %s %s'' @ [CHR 0x0A]) [arg0, arg1]]
           in case create_process k1 (cstring k1 arg0) (cstring k1 arg1) of
                None \<Rightarrow> Inr (\<lparr>code = not_found, data = 0\<rparr>, k1)
              | Some new_proc \<Rightarrow>
                  (case create_object (emit k1 [Process_start]) new_proc of
                     (h, k2) \<Rightarrow> Inr (\<lparr>code = ok, data = h\<rparr>, k2)))
      | Some wait_for_process \<Rightarrow>
          Inr (forward H k wait_for_process arg0 [] wait_for_status_change)
      | Some start_thread \<Rightarrow>
          (case create_object (emit k [Thread_start]) (create_thread k arg0 arg1) of
             (h, k2) \<Rightarrow> Inr (\<lparr>code = ok, data = h\<rparr>, k2))
      | Some stop_current_thread \<Rightarrow>
          Inr (\<lparr>code = ok, data = 0\<rparr>, emit k [Thread_stop, Interrupt_0xff])
      | Some join_thread \<Rightarrow> Inr (forward H k join_thread arg0 [] join)
      | Some sleep \<Rightarrow> Inr (\<lparr>code = ok, data = 0\<rparr>, emit k [Sleep_ms arg0])
      | Some poweroff \<Rightarrow> Inr (\<lparr>code = ok, data = 0\<rparr>, emit k [Outw 0x604 0x2000])
      | Some readdir \<Rightarrow>
          do_readdir H k (if arg0 = 0 then None else Some (cstring k arg0)) arg1 arg2
      | None \<Rightarrow>
          Inr (\<lparr>code = not_supported, data = 0\<rparr>,
               emit k [Dprintf (''ERROR: unsupported syscall: %lx'' @ [CHR 0x0A]) [index]]))"

section \<open>The \<open>ls\<close> program\<close>

text \<open>Calls to the console, with the arguments of a format kept as they are passed.\<close>

datatype fmt_arg = Arg_char char | Arg_str string | Arg_uint u32

datatype console_call = Write string | Writef string "fmt_arg list"

text \<open>
  \<open>syscalls::read_dir(path, entries, 256)\<close> is a parameter: for a path and a capacity it
  gives the result code and the records the kernel wrote, \<open>res.length\<close> of them. A name
  is printed with \<open>%s\<close>, up to its terminator: where the 64 bytes of the name hold none,
  the output runs on into the type byte, and ends at the padding after it, which
  \<open>dirent ent = {}\<close> has zeroed.
\<close>

type_synonym read_dir = "string \<Rightarrow> u64 \<Rightarrow> syscall_result_code \<times> dirent list"

definition print_entry :: "int \<Rightarrow> dirent \<Rightarrow> console_call list" where
  "print_entry long_flag e =
     (let nm = takeWhile (\<lambda>c. c \<noteq> NUL) (ent_name e @ [ent_type e]) in
      if long_flag \<noteq> 0 then
        (let ty = (if ent_type e = CHR ''d'' then CHR ''D'' else CHR ''F'') in
         [Writef ''[%c] %s'' [Arg_char ty, Arg_str nm]]
         @ (if ty = CHR ''F'' then [Writef '' %u'' [Arg_uint (ent_size e)]] else [])
         @ [Write [CHR 0x0A]])
      else [Writef (''%s'' @ [CHR 0x0A]) [Arg_str nm]])"

text \<open>Lines 18 to 46 of \<open>main.cpp\<close>.\<close>

definition ls :: "read_dir \<Rightarrow> int \<Rightarrow> string \<Rightarrow> console_call list" where
  "ls rd long_flag path =
     (case rd path 256 of
        (c, entries) \<Rightarrow>
          if c \<noteq> ok then [Write (''ls: failed to read directory'' @ [CHR 0x0A])]
          else concat (map (print_entry long_flag) entries))"

text \<open>
  The loops of lines 74 to 76 and 85 to 87: characters are copied into a buffer of 128
  bytes until a space, the end of the line or the 127th character. The result is the
  word in the buffer and what is left of the line. \<open>j\<close> counts the bytes already in the
  buffer.
\<close>

fun extract_word :: "string \<Rightarrow> nat \<Rightarrow> string \<times> string" where
  "extract_word [] j = ([], [])"
| "extract_word (c # cs) j =
     (if c \<noteq> CHR '' '' \<and> j < 128 - 1
      then (case extract_word cs (j + 1) of (w, r) \<Rightarrow> (c # w, r))
      else ([], c # cs))"

text \<open>The loop of line 79.\<close>

fun skip_spaces :: "string \<Rightarrow> string" where
  "skip_spaces [] = []"
| "skip_spaces (c # cs) = (if c = CHR '' '' then skip_spaces cs else c # cs)"

text \<open>
  Lines 55 to 112: the exit status and the calls to the console. The command line is
  \<open>None\<close> for a null pointer.
\<close>

definition main :: "read_dir \<Rightarrow> string option \<Rightarrow> int \<times> console_call list" where
  "main rd cmdline =
     (if cmdline = None \<or> cmdline = Some [] then (0, ls rd 0 [])
      else
        case extract_word (the cmdline) 0 of
          (arg1, rest1) \<Rightarrow>
            (case extract_word (skip_spaces rest1) 0 of
               (arg2, rest2) \<Rightarrow>
                 if arg2 = [] then
                   (if arg1 = ''-l'' then (0, ls rd 1 []) else (0, ls rd 0 arg1))
                 else
                   (if arg1 = ''-l'' then (0, ls rd 1 arg2)
                    else (1, [Write (''usage: ls [-l] <directory>'' @ [CHR 0x0A])]))))"

text \<open>A word of the command line: not empty, without a space, at most 127 characters.\<close>

definition word_ok :: "string \<Rightarrow> bool" where
  "word_ok t \<longleftrightarrow> t \<noteq> [] \<and> CHR '' '' \<notin> set t \<and> length t \<le> 127"

section \<open>Example values\<close>

text \<open>
  A numbering of the opcodes, masks with \<open>writable\<close> as bit 1, pages of 4096 bytes, and
  operation codes that translate to the result code of the same rank.
\<close>

definition example_headers :: headers where
  "example_headers =
     \<lparr>num = (\<lambda>s. case s of
          exit \<Rightarrow> 0 | set_fs \<Rightarrow> 1 | set_gs \<Rightarrow> 2 | sys_open \<Rightarrow> 3 | sys_close \<Rightarrow> 4
        | sys_write \<Rightarrow> 5 | sys_pwrite \<Rightarrow> 6 | sys_read \<Rightarrow> 7 | sys_pread \<Rightarrow> 8
        | sys_ioctl \<Rightarrow> 9 | alloc_mem \<Rightarrow> 10 | start_process \<Rightarrow> 11
        | wait_for_process \<Rightarrow> 12 | start_thread \<Rightarrow> 13 | stop_current_thread \<Rightarrow> 14
        | join_thread \<Rightarrow> 15 | sleep \<Rightarrow> 16 | poweroff \<Rightarrow> 17 | readdir \<Rightarrow> 18),
      writable = 2,
      readwrite = 3,
      PAGE_ALIGN_UP = (\<lambda>x. (x + 0xFFF) AND NOT 0xFFF),
      cast_code = (\<lambda>i. if i = 0 then ok else if i = 1 then not_found else not_supported)\<rparr>"

text \<open>An object whose operations succeed and report their last argument.\<close>

definition example_object :: object where
  "example_object =
     \<lparr>obj_write = (\<lambda>buf len. \<lparr>o_code = 0, o_data = len\<rparr>),
      obj_pwrite = (\<lambda>buf len off. \<lparr>o_code = 0, o_data = len\<rparr>),
      obj_read = (\<lambda>buf len. \<lparr>o_code = 0, o_data = len\<rparr>),
      obj_pread = (\<lambda>buf len off. \<lparr>o_code = 0, o_data = len\<rparr>),
      obj_ioctl = (\<lambda>cmd buf len. \<lparr>o_code = 2, o_data = 0\<rparr>),
      wait_for_status_change = \<lparr>o_code = 0, o_data = 7\<rparr>,
      join = \<lparr>o_code = 0, o_data = 9\<rparr>\<rparr>"

text \<open>
  The directory \<open>/docs\<close> of the specification's example, with the file \<open>a.txt\<close> of 120
  bytes and the directory \<open>sub\<close>; a directory with a file of 4 GiB; a file whose name has
  70 characters.
\<close>

definition a_txt :: fs_node where
  "a_txt = Fs_node k_file ''a.txt'' 120 [] (Some example_object)"

definition sub :: fs_node where
  "sub = Fs_node k_directory ''sub'' 0 [] None"

definition docs :: fs_node where
  "docs = Fs_node k_directory ''docs'' 0 [a_txt, sub] None"

definition big :: fs_node where
  "big = Fs_node k_file ''big'' 0x100000000 [] (Some example_object)"

definition vault :: fs_node where
  "vault = Fs_node k_directory ''vault'' 0 [big] None"

definition long_named :: fs_node where
  "long_named = Fs_node k_file (replicate 70 (CHR ''x'')) 5 [] (Some example_object)"

definition root_dir :: fs_node where
  "root_dir = Fs_node k_directory [] 0 [docs, vault] None"

text \<open>
  A kernel with these nodes, a read-write region of one page at \<open>0x10000\<close>, a read-only
  one at \<open>0x20000\<close>, and one object under the handle 1.
\<close>

definition example_kernel :: kernel where
  "example_kernel =
     \<lparr>vfs = (\<lambda>p. if p = ''/'' then Some root_dir
                 else if p = ''/docs'' then Some docs
                 else if p = ''/vault'' then Some vault
                 else if p = ''/docs/a.txt'' then Some a_txt
                 else None),
      regions = [\<lparr>base = 0x10000, rgn_size = 0x1000, flags = 3, storage = 0x8000\<rparr>,
                 \<lparr>base = 0x20000, rgn_size = 0x1000, flags = 1, storage = 0x9000\<rparr>],
      objects = (\<lambda>h. if h = 1 then Some example_object else None),
      cstring = (\<lambda>a. if a = 0x30000 then ''/docs'' else []),
      new_id = (\<lambda>ob. 2),
      create_process = (\<lambda>path args. None),
      create_thread = (\<lambda>entry arg. example_object),
      alloc_region = (\<lambda>sz fl. \<lparr>base = 0x40000, rgn_size = sz, flags = fl, storage = 0xA000\<rparr>),
      lookups = [],
      visited = [],
      copied = [],
      events = []\<rparr>"

text \<open>A writable region that ends one byte below the top of the 64-bit address space.\<close>

definition high_region :: region where
  "high_region = \<lparr>base = 0xFFFFFFFFFFFFF000, rgn_size = 0xFFF, flags = 2, storage = 0x4000\<rparr>"

text \<open>A \<open>read_dir\<close> that finds nothing.\<close>

definition no_directory :: read_dir where
  "no_directory = (\<lambda>path capacity. (not_found, []))"

section \<open>Auxiliary facts\<close>

lemma replicate_update_same: "(replicate n x)[i := x] = replicate n x"
  by (induction n arbitrary: i) (auto split: nat.splits)

lemma build_dirent_entry: "build_dirent c = Inr (entry_for c)"
proof (cases "64 \<le> length (name c)")
  case True
  then show ?thesis
    by (simp add: build_dirent_def entry_for_def memcpy_chars_def store_char_def c_str_def
        MAX_FILE_NAME_LENGTH_def Let_def list_update_append)
next
  case False
  then show ?thesis
    by (simp add: build_dirent_def entry_for_def memcpy_chars_def store_char_def c_str_def
        MAX_FILE_NAME_LENGTH_def Let_def list_update_append replicate_update_same)
qed

lemma unat_succ: "unat (c::u64) < unat (mx::u64) \<Longrightarrow> unat (c + 1) = Suc (unat c)"
proof -
  assume lt: "unat c < unat mx"
  have "unat mx < 2 ^ 64" using unsigned_less [of mx, where ?'a = nat] by simp
  with lt have "unat c + unat (1::u64) < 2 ^ LENGTH(64)" by simp
  then have "unat (c + 1) = unat c + unat (1::u64)" by (simp only: unat_add_lem)
  then show ?thesis by simp
qed

lemma map_upt_shift: "map f [0..<Suc n] = f 0 # map (\<lambda>i. f (Suc i)) [0..<n]"
  by (simp add: upt_conv_Cons map_Suc_upt [symmetric] del: upt_Suc)

lemma readdir_loop_run:
  assumes "unat c \<le> unat mx"
    and "n = min (length cs) (unat mx - unat c)"
    and "\<forall>i<n. validate_dst H (regions k) (dst_of ub (c + of_nat i)) \<noteq> None"
  shows "readdir_loop H k ub mx cs c =
     Inr (\<lparr>code = ok, data = c + of_nat n\<rparr>,
          k\<lparr>visited := visited k @ take n cs,
            copied := copied k @
              map (\<lambda>i. (the (validate_dst H (regions k) (dst_of ub (c + of_nat i))),
                         entry_for (cs ! i))) [0..<n]\<rparr>)"
  using assms
proof (induction cs arbitrary: k c n)
  case Nil
  then show ?case by simp
next
  case (Cons child rest)
  show ?case
  proof (cases "mx \<le> c")
    case True
    with Cons.prems have "n = 0" by (simp add: word_le_nat_alt)
    with True show ?thesis by simp
  next
    case False
    then have lt: "unat c < unat mx" by (simp add: word_le_nat_alt)
    have suc: "unat (c + 1) = Suc (unat c)" by (rule unat_succ [OF lt])
    obtain m where n: "n = Suc m" and m: "m = min (length rest) (unat mx - unat (c + 1))"
      using Cons.prems(2) lt suc by (cases n) auto
    from Cons.prems(3) n obtain kdst where
      v0: "validate_dst H (regions k) (dst_of ub c) = Some kdst"
      by (cases "validate_dst H (regions k) (dst_of ub c)") force+
    let ?k2 = "k\<lparr>visited := visited k @ [child], copied := copied k @ [(kdst, entry_for child)]\<rparr>"
    have shift: "c + 1 + of_nat i = c + of_nat (Suc i)" for i by simp
    have "\<forall>i<m. validate_dst H (regions ?k2) (dst_of ub (c + 1 + of_nat i)) \<noteq> None"
      using Cons.prems(3) n by (auto simp: shift simp del: of_nat_Suc)
    then have IH: "readdir_loop H ?k2 ub mx rest (c + 1) =
       Inr (\<lparr>code = ok, data = c + 1 + of_nat m\<rparr>,
          ?k2\<lparr>visited := visited ?k2 @ take m rest,
            copied := copied ?k2 @
              map (\<lambda>i. (the (validate_dst H (regions ?k2) (dst_of ub (c + 1 + of_nat i))),
                         entry_for (rest ! i))) [0..<m]\<rparr>)"
      using Cons.IH [of "c + 1" m ?k2] lt suc m by simp
    have "readdir_loop H k ub mx (child # rest) c = readdir_loop H ?k2 ub mx rest (c + 1)"
      using False v0 by (simp add: build_dirent_entry)
    also note IH
    finally show ?thesis
      using v0 by (simp add: n map_upt_shift shift del: upt_Suc of_nat_Suc)
  qed
qed

lemma readdir_loop_stop:
  assumes "j < length cs"
    and "unat c + j < unat mx"
    and "\<forall>i<j. validate_dst H (regions k) (dst_of ub (c + of_nat i)) \<noteq> None"
    and "validate_dst H (regions k) (dst_of ub (c + of_nat j)) = None"
  shows "readdir_loop H k ub mx cs c =
     Inr (\<lparr>code = not_supported, data = 0\<rparr>,
          k\<lparr>visited := visited k @ take (Suc j) cs,
            copied := copied k @
              map (\<lambda>i. (the (validate_dst H (regions k) (dst_of ub (c + of_nat i))),
                         entry_for (cs ! i))) [0..<j]\<rparr>)"
  using assms
proof (induction cs arbitrary: k c j)
  case Nil
  then show ?case by simp
next
  case (Cons child rest)
  from Cons.prems(2) have lt: "unat c < unat mx" by simp
  then have nle: "\<not> mx \<le> c" by (simp add: word_le_nat_alt)
  have suc: "unat (c + 1) = Suc (unat c)" by (rule unat_succ [OF lt])
  show ?case
  proof (cases j)
    case 0
    with Cons.prems(4) nle show ?thesis
      by (simp add: build_dirent_entry)
  next
    case (Suc m)
    from Cons.prems(3) Suc obtain kdst where
      v0: "validate_dst H (regions k) (dst_of ub c) = Some kdst"
      by (cases "validate_dst H (regions k) (dst_of ub c)") force+
    let ?k2 = "k\<lparr>visited := visited k @ [child], copied := copied k @ [(kdst, entry_for child)]\<rparr>"
    have shift: "c + 1 + of_nat i = c + of_nat (Suc i)" for i by simp
    have a: "\<forall>i<m. validate_dst H (regions ?k2) (dst_of ub (c + 1 + of_nat i)) \<noteq> None"
      using Cons.prems(3) Suc by (auto simp: shift simp del: of_nat_Suc)
    have b: "validate_dst H (regions ?k2) (dst_of ub (c + 1 + of_nat m)) = None"
      using Cons.prems(4) Suc by (simp add: shift del: of_nat_Suc)
    have c: "m < length rest" "unat (c + 1) + m < unat mx"
      using Cons.prems(1,2) Suc suc by simp_all
    have "readdir_loop H k ub mx (child # rest) c = readdir_loop H ?k2 ub mx rest (c + 1)"
      using nle v0 by (simp add: build_dirent_entry)
    also note Cons.IH [OF c a b]
    finally show ?thesis
      using v0 by (simp add: Suc map_upt_shift shift del: upt_Suc of_nat_Suc)
  qed
qed

lemma do_readdir_resolved:
  assumes "looks_up path p" "vfs k p = Some node" "kind node = k_directory"
  shows "do_readdir H k path ub mx =
           readdir_loop H (k\<lparr>lookups := lookups k @ [p]\<rparr>) ub mx (children node) 0"
  using assms by (auto simp: looks_up_def do_readdir_def vfs_lookup_def)

lemmas example_defs =
  example_kernel_def example_headers_def root_dir_def docs_def vault_def a_txt_def sub_def
  big_def long_named_def

lemmas validate_defs =
  validate_dst_def get_region_from_address_def contains_def sizeof_dirent_def dst_of_def

lemma word_gt_wrapped:
  "(a + b > c + d) \<longleftrightarrow>
     (unat c + unat d) mod 2 ^ 64 < (unat a + unat b) mod 2 ^ 64" for a b c d :: u64
  by (simp add: word_less_nat_alt unat_word_ariths)

lemma get_region_contains:
  "get_region_from_address rs a = Some r \<Longrightarrow> r \<in> set rs \<and> contains r a"
  by (auto simp: get_region_from_address_def find_Some_iff)

lemma get_region_None:
  "get_region_from_address rs a = None \<longleftrightarrow> (\<forall>r\<in>set rs. \<not> contains r a)"
  by (auto simp: get_region_from_address_def find_None_iff)

lemma validate_dst_None_iff:
  "validate_dst H rs dst = None \<longleftrightarrow>
     (\<forall>r\<in>set rs. \<not> contains r dst)
     \<or> (\<exists>r. get_region_from_address rs dst = Some r \<and>
           ((unat (base r) + unat (rgn_size r)) mod 2 ^ 64
              < (unat dst + unat sizeof_dirent) mod 2 ^ 64
            \<or> flags r AND writable H = 0))"
proof (cases "get_region_from_address rs dst")
  case None
  moreover from None have "\<forall>r\<in>set rs. \<not> contains r dst"
    by (simp add: get_region_None)
  ultimately show ?thesis by (simp add: validate_dst_def)
next
  case (Some r)
  then have "\<not> (\<forall>r\<in>set rs. \<not> contains r dst)"
    using get_region_contains by blast
  with Some show ?thesis
    by (simp add: validate_dst_def word_gt_wrapped Let_def)
qed

lemma no_wrap_below_top:
  assumes "get_region_from_address rs dst = Some r"
    and "\<forall>r\<in>set rs. unat (base r) + unat (rgn_size r) + unat sizeof_dirent \<le> 2 ^ 64"
  shows "(unat (base r) + unat (rgn_size r)) mod 2 ^ 64
           < (unat dst + unat sizeof_dirent) mod 2 ^ 64
         \<longleftrightarrow> unat (base r) + unat (rgn_size r) < unat dst + unat sizeof_dirent"
proof -
  from assms(1) have r: "r \<in> set rs" "contains r dst"
    using get_region_contains by blast+
  from r(1) assms(2) have top: "unat (base r) + unat (rgn_size r) + unat sizeof_dirent \<le> 2 ^ 64"
    by blast
  have sz: "unat sizeof_dirent = 72" by (simp add: sizeof_dirent_def)
  from r(2) have "unat dst < unat (base r) + unat (rgn_size r)" by (simp add: contains_def)
  with top sz have "unat dst + unat sizeof_dirent < 2 ^ 64"
    and "unat (base r) + unat (rgn_size r) < 2 ^ 64" by simp_all
  then show ?thesis by simp
qed

lemma extract_word_word:
  assumes "CHR '' '' \<notin> set t" and "j + length t \<le> 127"
    and "rest = [] \<or> hd rest = CHR '' ''"
  shows "extract_word (t @ rest) j = (t, rest)"
  using assms
proof (induction t arbitrary: j)
  case Nil
  then show ?case by (cases rest) auto
next
  case (Cons c t)
  then have "extract_word (t @ rest) (j + 1) = (t, rest)" by simp
  with Cons.prems show ?case by auto
qed

lemma skip_spaces_replicate:
  "skip_spaces (replicate n (CHR '' '') @ r) = skip_spaces r"
  by (induction n) auto

lemma skip_spaces_word: "r = [] \<or> hd r \<noteq> CHR '' '' \<Longrightarrow> skip_spaces r = r"
  by (cases r) auto

lemma decode_num: "inj (num H) \<Longrightarrow> decode H (num H s) = Some s"
  by (cases s) (simp_all add: decode_def inj_eq)

lemma decode_None: "\<forall>s. num H s \<noteq> index \<Longrightarrow> decode H index = None"
  by (simp add: decode_def)

lemma inj_example_num: "inj (num example_headers)"
proof (rule inj_on_inverseI)
  fix s :: syscall_numbers
  let ?name_of = "\<lambda>n::u64. [exit, set_fs, set_gs, sys_open, sys_close, sys_write, sys_pwrite, sys_read,
        sys_pread, sys_ioctl, alloc_mem, start_process, wait_for_process, start_thread,
        stop_current_thread, join_thread, sleep, poweroff, readdir] ! unat n"
  show "?name_of (num example_headers s) = s"
    by (cases s) (simp_all add: example_headers_def)
qed

section \<open>The name in a directory entry\<close>

text \<open>
  C5. For every child, \<open>build_dirent\<close> returns a record and no fault, so every write
  stayed inside the 64-byte name array. The byte after the copied name is the terminator:
  a name of 64 characters or more is copied as its first 63 bytes and a terminator, a
  shorter one in full, followed by a terminator (and terminators up to the end of the
  array).
\<close>

theorem build_dirent_name_terminated:
  "\<exists>ent. build_dirent child = Inr ent \<and>
     length (ent_name ent) = MAX_FILE_NAME_LENGTH \<and>
     ent_name ent ! min 63 (length (name child)) = NUL \<and>
     (if length (name child) \<ge> MAX_FILE_NAME_LENGTH
      then ent_name ent = take 63 (name child) @ [NUL]
      else ent_name ent =
             name child @ NUL # replicate (63 - length (name child)) NUL)"
proof (cases "64 \<le> length (name child)")
  case True
  then show ?thesis
    by (simp add: build_dirent_entry entry_for_def MAX_FILE_NAME_LENGTH_def nth_append)
next
  case False
  then have "replicate (64 - length (name child)) NUL
      = NUL # replicate (63 - length (name child)) NUL"
    by (cases "64 - length (name child)") (auto simp: Suc_diff_le)
  with False show ?thesis
    by (simp add: build_dirent_entry entry_for_def MAX_FILE_NAME_LENGTH_def nth_append)
qed

theorem build_dirent_name_terminated_witness:
  "build_dirent long_named =
     Inr \<lparr>ent_name = replicate 63 (CHR ''x'') @ [NUL], ent_type = CHR ''f'', ent_size = 5\<rparr>
   \<and> build_dirent a_txt =
     Inr \<lparr>ent_name = ''a.txt'' @ replicate 59 NUL, ent_type = CHR ''f'', ent_size = 120\<rparr>"
  using build_dirent_name_terminated [of long_named] build_dirent_name_terminated [of a_txt]
  by (auto simp: long_named_def a_txt_def MAX_FILE_NAME_LENGTH_def build_dirent_entry entry_for_def)

section \<open>Enumerating a directory\<close>

text \<open>
  C2, as stated, fails on a file of 4 GiB: the record's size is the child's size cast to
  \<open>unsigned int\<close>, here 0.
\<close>

theorem readdir_size_truncated_counterexample:
  "do_readdir example_headers example_kernel (Some ''/vault'') 0x10000 1 =
     Inr (\<lparr>code = ok, data = 1\<rparr>,
          example_kernel\<lparr>lookups := [''/vault''], visited := [big],
            copied := [(0x8000, \<lparr>ent_name = ''big'' @ replicate 61 NUL, ent_type = CHR ''f'',
                                 ent_size = 0\<rparr>)]\<rparr>)
   \<and> kind big = k_file \<and> node_size big = 4294967296"
  by (simp add: do_readdir_def vfs_lookup_def example_defs validate_defs build_dirent_entry
      entry_for_def)

text \<open>
  C2, amended. For a directory with \<open>N\<close> children and \<open>max_entries\<close> at least \<open>N\<close>,
  with every destination validating, \<open>do_readdir\<close> returns \<open>ok\<close> with \<open>data = N\<close>, and
  the records copied are, in the order of the children, at the validated addresses: the
  name cut to 63 bytes and terminated, the type \<open>d\<close> for a directory and \<open>f\<close> otherwise,
  the size 0 for a directory and, for a file, the child's byte size modulo \<open>2^32\<close>.
\<close>

theorem readdir_lists_all_children:
  assumes "looks_up path p" and "vfs k p = Some node" and "kind node = k_directory"
    and "length (children node) \<le> unat max_entries"
    and "\<forall>i<length (children node).
           validate_dst H (regions k) (dst_of user_buf (of_nat i)) \<noteq> None"
  shows "do_readdir H k path user_buf max_entries =
     Inr (\<lparr>code = ok, data = of_nat (length (children node))\<rparr>,
          k\<lparr>lookups := lookups k @ [p],
            visited := visited k @ children node,
            copied := copied k @
              map (\<lambda>i. (the (validate_dst H (regions k) (dst_of user_buf (of_nat i))),
                    \<lparr>ent_name = take 63 (name (children node ! i))
                        @ replicate (64 - min 63 (length (name (children node ! i)))) NUL,
                     ent_type = (if kind (children node ! i) = k_directory
                                 then CHR ''d'' else CHR ''f''),
                     ent_size = (if kind (children node ! i) = k_file
                                 then word_of_nat (node_size (children node ! i) mod 2 ^ 32)
                                 else 0)\<rparr>))
                [0..<length (children node)]\<rparr>)
     \<and> unat (of_nat (length (children node)) :: u64) = length (children node)
     \<and> (\<forall>c\<in>set (children node). node_size c < 2 ^ 32 \<longrightarrow>
            unat (word_of_nat (node_size c mod 2 ^ 32) :: u32) = node_size c)"
proof -
  let ?cs = "children node"
  let ?k1 = "k\<lparr>lookups := lookups k @ [p]\<rparr>"
  have n: "length ?cs = min (length ?cs) (unat max_entries - unat (0::u64))"
    using assms(4) by simp
  have v: "\<forall>i<length ?cs. validate_dst H (regions ?k1) (dst_of user_buf (0 + of_nat i)) \<noteq> None"
    using assms(5) by simp
  have "length ?cs < 2 ^ 64"
    using assms(4) unsigned_less [of max_entries, where ?'a = nat] by simp
  then have len: "unat (of_nat (length ?cs) :: u64) = length ?cs"
    by (simp add: unat_of_nat)
  have "do_readdir H k path user_buf max_entries = readdir_loop H ?k1 user_buf max_entries ?cs 0"
    by (rule do_readdir_resolved [OF assms(1-3)])
  also note readdir_loop_run [OF _ n v]
  finally show ?thesis
    using len by (simp add: entry_for_def unat_of_nat)
qed

theorem readdir_lists_all_children_witness:
  "do_readdir example_headers example_kernel (Some ''/docs'') 0x10000 256 =
     Inr (\<lparr>code = ok, data = 2\<rparr>,
          example_kernel\<lparr>lookups := [''/docs''], visited := [a_txt, sub],
            copied :=
              [(0x8000, \<lparr>ent_name = ''a.txt'' @ replicate 59 NUL, ent_type = CHR ''f'',
                         ent_size = 120\<rparr>),
               (0x8048, \<lparr>ent_name = ''sub'' @ replicate 61 NUL, ent_type = CHR ''d'',
                         ent_size = 0\<rparr>)]\<rparr>)"
proof -
  have 1: "looks_up (Some ''/docs'') ''/docs''" by (simp add: looks_up_def)
  have 2: "vfs example_kernel ''/docs'' = Some docs" by (simp add: example_kernel_def)
  have 3: "kind docs = k_directory" by (simp add: docs_def)
  have 4: "length (children docs) \<le> unat (256::u64)" by (simp add: docs_def)
  have 5: "\<forall>i<length (children docs).
      validate_dst example_headers (regions example_kernel) (dst_of 0x10000 (of_nat i)) \<noteq> None"
    by (simp add: docs_def less_Suc_eq example_kernel_def example_headers_def validate_defs)
  show ?thesis
    using readdir_lists_all_children [OF 1 2 3 4 5]
    by (simp add: example_defs validate_defs upt_rec [of 0] upt_rec [of 1])
qed

text \<open>
  C3. For a directory with more children than \<open>max_entries\<close>, with the destinations up to
  the cap validating, \<open>do_readdir\<close> returns \<open>ok\<close> with \<open>data = max_entries\<close>; it reads and
  copies the first \<open>max_entries\<close> children, in order, and nothing after them. With
  \<open>max_entries = 0\<close> it returns \<open>ok\<close> with \<open>data = 0\<close> and the kernel is as after the look-up:
  no child was read and nothing was copied.
\<close>

theorem readdir_stops_at_cap:
  assumes "looks_up path p" and "vfs k p = Some node" and "kind node = k_directory"
    and "unat max_entries < length (children node)"
    and "\<forall>i<unat max_entries.
           validate_dst H (regions k) (dst_of user_buf (of_nat i)) \<noteq> None"
  shows "do_readdir H k path user_buf max_entries =
     Inr (\<lparr>code = ok, data = max_entries\<rparr>,
          k\<lparr>lookups := lookups k @ [p],
            visited := visited k @ take (unat max_entries) (children node),
            copied := copied k @
              map (\<lambda>i. (the (validate_dst H (regions k) (dst_of user_buf (of_nat i))),
                         entry_for (children node ! i)))
                [0..<unat max_entries]\<rparr>)
     \<and> do_readdir H k path user_buf 0 =
           Inr (\<lparr>code = ok, data = 0\<rparr>, k\<lparr>lookups := lookups k @ [p]\<rparr>)"
proof -
  let ?cs = "children node"
  let ?k1 = "k\<lparr>lookups := lookups k @ [p]\<rparr>"
  have loop: "do_readdir H k path user_buf mx = readdir_loop H ?k1 user_buf mx ?cs 0" for mx
    by (rule do_readdir_resolved [OF assms(1-3)])
  have n: "unat max_entries = min (length ?cs) (unat max_entries - unat (0::u64))"
    using assms(4) by simp
  have v: "\<forall>i<unat max_entries.
      validate_dst H (regions ?k1) (dst_of user_buf (0 + of_nat i)) \<noteq> None"
    using assms(5) by simp
  have first: "do_readdir H k path user_buf max_entries =
     Inr (\<lparr>code = ok, data = max_entries\<rparr>,
          k\<lparr>lookups := lookups k @ [p],
            visited := visited k @ take (unat max_entries) ?cs,
            copied := copied k @
              map (\<lambda>i. (the (validate_dst H (regions k) (dst_of user_buf (of_nat i))),
                         entry_for (?cs ! i)))
                [0..<unat max_entries]\<rparr>)"
    unfolding loop using readdir_loop_run [OF _ n v] by simp
  have n0: "0 = min (length ?cs) (unat (0::u64) - unat (0::u64))" by simp
  have "readdir_loop H ?k1 user_buf 0 ?cs 0 = Inr (\<lparr>code = ok, data = 0\<rparr>, ?k1)"
    using readdir_loop_run [OF _ n0, of H ?k1 user_buf] by simp
  with first show ?thesis by (simp add: loop)
qed

theorem readdir_stops_at_cap_witness:
  "do_readdir example_headers example_kernel (Some ''/docs'') 0x10000 1 =
     Inr (\<lparr>code = ok, data = 1\<rparr>,
          example_kernel\<lparr>lookups := [''/docs''], visited := [a_txt],
            copied :=
              [(0x8000, \<lparr>ent_name = ''a.txt'' @ replicate 59 NUL, ent_type = CHR ''f'',
                         ent_size = 120\<rparr>)]\<rparr>)
   \<and> do_readdir example_headers example_kernel (Some ''/docs'') 0x10000 0 =
     Inr (\<lparr>code = ok, data = 0\<rparr>, example_kernel\<lparr>lookups := [''/docs'']\<rparr>)"
proof -
  have 1: "looks_up (Some ''/docs'') ''/docs''" by (simp add: looks_up_def)
  have 2: "vfs example_kernel ''/docs'' = Some docs" by (simp add: example_kernel_def)
  have 3: "kind docs = k_directory" by (simp add: docs_def)
  have 4: "unat (1::u64) < length (children docs)" by (simp add: docs_def)
  have 5: "\<forall>i<unat (1::u64).
      validate_dst example_headers (regions example_kernel) (dst_of 0x10000 (of_nat i)) \<noteq> None"
    by (simp add: example_kernel_def example_headers_def validate_defs)
  show ?thesis
    using readdir_stops_at_cap [OF 1 2 3 4 5]
    by (simp add: example_defs validate_defs entry_for_def)
qed

text \<open>
  C6. When the destination of entry \<open>j\<close> is the first that does not validate, the call
  returns \<open>not_supported\<close> with \<open>data = 0\<close>: child \<open>j\<close> is the last one read, and the records
  of the entries before it have been copied and stay copied.
\<close>

theorem readdir_not_atomic:
  assumes "looks_up path p" and "vfs k p = Some node" and "kind node = k_directory"
    and "j < length (children node)" and "j < unat max_entries"
    and "\<forall>i<j. validate_dst H (regions k) (dst_of user_buf (of_nat i)) \<noteq> None"
    and "validate_dst H (regions k) (dst_of user_buf (of_nat j)) = None"
  shows "do_readdir H k path user_buf max_entries =
     Inr (\<lparr>code = not_supported, data = 0\<rparr>,
          k\<lparr>lookups := lookups k @ [p],
            visited := visited k @ take (Suc j) (children node),
            copied := copied k @
              map (\<lambda>i. (the (validate_dst H (regions k) (dst_of user_buf (of_nat i))),
                         entry_for (children node ! i)))
                [0..<j]\<rparr>)"
proof -
  let ?cs = "children node"
  let ?k1 = "k\<lparr>lookups := lookups k @ [p]\<rparr>"
  have a: "unat (0::u64) + j < unat max_entries" using assms(5) by simp
  have v: "\<forall>i<j. validate_dst H (regions ?k1) (dst_of user_buf (0 + of_nat i)) \<noteq> None"
    using assms(6) by simp
  have f: "validate_dst H (regions ?k1) (dst_of user_buf (0 + of_nat j)) = None"
    using assms(7) by simp
  have "do_readdir H k path user_buf max_entries = readdir_loop H ?k1 user_buf max_entries ?cs 0"
    by (rule do_readdir_resolved [OF assms(1-3)])
  also note readdir_loop_stop [OF assms(4) a v f]
  finally show ?thesis by simp
qed

theorem readdir_not_atomic_witness:
  "do_readdir example_headers example_kernel (Some ''/docs'') 0x10FB8 256 =
     Inr (\<lparr>code = not_supported, data = 0\<rparr>,
          example_kernel\<lparr>lookups := [''/docs''], visited := [a_txt, sub],
            copied :=
              [(0x8FB8, \<lparr>ent_name = ''a.txt'' @ replicate 59 NUL, ent_type = CHR ''f'',
                         ent_size = 120\<rparr>)]\<rparr>)"
proof -
  have 1: "looks_up (Some ''/docs'') ''/docs''" by (simp add: looks_up_def)
  have 2: "vfs example_kernel ''/docs'' = Some docs" by (simp add: example_kernel_def)
  have 3: "kind docs = k_directory" by (simp add: docs_def)
  have 4: "1 < length (children docs)" by (simp add: docs_def)
  have 5: "1 < unat (256::u64)" by simp
  have 6: "\<forall>i<1::nat.
      validate_dst example_headers (regions example_kernel) (dst_of 0x10FB8 (of_nat i)) \<noteq> None"
    by (simp add: example_kernel_def example_headers_def validate_defs)
  have 7: "validate_dst example_headers (regions example_kernel) (dst_of 0x10FB8 (of_nat 1)) = None"
    by (simp add: example_kernel_def example_headers_def validate_defs)
  show ?thesis
    using readdir_not_atomic [OF 1 2 3 4 5 6 7]
    by (simp add: example_defs validate_defs entry_for_def)
qed

section \<open>Paths\<close>

text \<open>
  C4. The empty path gives what \<open>/\<close> gives. A path that, once the empty one is taken as
  \<open>/\<close>, does not begin with \<open>/\<close> returns \<open>not_supported\<close> and leaves the kernel as it was: no
  path was looked up. A path whose look-up finds no node returns \<open>not_found\<close>, and one
  that resolves to a node that is not a directory returns \<open>not_supported\<close>.
\<close>

theorem readdir_path_handling:
  "do_readdir H k (Some []) user_buf max_entries = do_readdir H k (Some ''/'') user_buf max_entries
   \<and> (rel \<noteq> [] \<and> hd rel \<noteq> CHR ''/'' \<longrightarrow>
        do_readdir H k (Some rel) user_buf max_entries =
          Inr (\<lparr>code = not_supported, data = 0\<rparr>, k))
   \<and> (looks_up path p \<and> vfs k p = None \<longrightarrow>
        do_readdir H k path user_buf max_entries =
          Inr (\<lparr>code = not_found, data = 0\<rparr>, k\<lparr>lookups := lookups k @ [p]\<rparr>))
   \<and> (looks_up path' p' \<and> vfs k p' = Some node \<and> kind node \<noteq> k_directory \<longrightarrow>
        do_readdir H k path' user_buf max_entries =
          Inr (\<lparr>code = not_supported, data = 0\<rparr>, k\<lparr>lookups := lookups k @ [p']\<rparr>))"
  by (auto simp: do_readdir_def vfs_lookup_def looks_up_def)

theorem readdir_path_handling_witness:
  "do_readdir example_headers example_kernel (Some []) 0x10000 256 =
     do_readdir example_headers example_kernel (Some ''/'') 0x10000 256
   \<and> do_readdir example_headers example_kernel (Some ''docs'') 0x10000 256 =
       Inr (\<lparr>code = not_supported, data = 0\<rparr>, example_kernel)
   \<and> do_readdir example_headers example_kernel (Some ''/nowhere'') 0x10000 256 =
       Inr (\<lparr>code = not_found, data = 0\<rparr>, example_kernel\<lparr>lookups := [''/nowhere'']\<rparr>)
   \<and> do_readdir example_headers example_kernel (Some ''/docs/a.txt'') 0x10000 256 =
       Inr (\<lparr>code = not_supported, data = 0\<rparr>, example_kernel\<lparr>lookups := [''/docs/a.txt'']\<rparr>)"
  using readdir_path_handling [of example_headers example_kernel "0x10000" 256 "''docs''"
      "Some ''/nowhere''" "''/nowhere''" "Some ''/docs/a.txt''" "''/docs/a.txt''" a_txt]
  by (simp add: looks_up_def example_kernel_def a_txt_def)

text \<open>
  C10. A null path pointer gives what the empty path gives, which is what \<open>/\<close> gives, for
  every buffer and every \<open>max_entries\<close>.
\<close>

theorem readdir_null_path:
  "do_readdir H k None user_buf max_entries = do_readdir H k (Some []) user_buf max_entries
   \<and> do_readdir H k None user_buf max_entries = do_readdir H k (Some ''/'') user_buf max_entries"
  by (simp add: do_readdir_def)

theorem readdir_null_path_witness:
  "do_readdir example_headers example_kernel None 0x10000 1 =
     do_readdir example_headers example_kernel (Some []) 0x10000 1
   \<and> do_readdir example_headers example_kernel None 0x10000 1 =
     Inr (\<lparr>code = ok, data = 1\<rparr>,
          example_kernel\<lparr>lookups := [''/''], visited := [docs],
            copied := [(0x8000, \<lparr>ent_name = ''docs'' @ replicate 60 NUL, ent_type = CHR ''d'',
                                 ent_size = 0\<rparr>)]\<rparr>)"
  using readdir_null_path [of example_headers example_kernel "0x10000" 1]
  by (simp add: do_readdir_def vfs_lookup_def example_defs validate_defs build_dirent_entry
      entry_for_def)

section \<open>Validation of a destination\<close>

text \<open>
  Where no region ends less than 72 bytes below \<open>2^64\<close>, the sums of line 138 do not wrap
  and the validation is what its comment says: it returns \<open>not_supported\<close> exactly when no
  region contains the destination, or the destination plus the record size exceeds the
  region's base plus size, or the region lacks the writable flag; otherwise the kernel
  address is the storage base plus the offset of the destination in the region, and the
  loop copies the record there.
\<close>

lemma validate_dst_below_top:
  "((\<forall>r\<in>set rs. unat (base r) + unat (rgn_size r) + unat sizeof_dirent \<le> 2 ^ 64) \<longrightarrow>
        (validate_dst H rs dst = None \<longleftrightarrow>
           (\<forall>r\<in>set rs. \<not> contains r dst)
           \<or> (\<exists>r. get_region_from_address rs dst = Some r \<and>
                 (unat (base r) + unat (rgn_size r) < unat dst + unat sizeof_dirent
                  \<or> flags r AND writable H = 0))))
   \<and> (\<forall>r. get_region_from_address rs dst = Some r \<and> validate_dst H rs dst \<noteq> None \<longrightarrow>
          validate_dst H rs dst = Some (storage r + (dst - base r)))
   \<and> (counter < max_entries \<longrightarrow>
        readdir_loop H k user_buf max_entries (child # rest) counter =
          (case validate_dst H (regions k) (dst_of user_buf counter) of
             None \<Rightarrow> Inr (\<lparr>code = not_supported, data = 0\<rparr>, k\<lparr>visited := visited k @ [child]\<rparr>)
           | Some kdst \<Rightarrow>
               readdir_loop H
                 (k\<lparr>visited := visited k @ [child],
                    copied := copied k @ [(kdst, entry_for child)]\<rparr>)
                 user_buf max_entries rest (counter + 1)))"
proof -
  have 1: "validate_dst H rs dst = None \<longleftrightarrow>
           (\<forall>r\<in>set rs. \<not> contains r dst)
           \<or> (\<exists>r. get_region_from_address rs dst = Some r \<and>
                 (unat (base r) + unat (rgn_size r) < unat dst + unat sizeof_dirent
                  \<or> flags r AND writable H = 0))"
    if "\<forall>r\<in>set rs. unat (base r) + unat (rgn_size r) + unat sizeof_dirent \<le> 2 ^ 64"
    unfolding validate_dst_None_iff using no_wrap_below_top [OF _ that] by blast
  have 2: "\<forall>r. get_region_from_address rs dst = Some r \<and> validate_dst H rs dst \<noteq> None \<longrightarrow>
          validate_dst H rs dst = Some (storage r + (dst - base r))"
    by (auto simp: validate_dst_def Let_def split: if_splits)
  have 3: "readdir_loop H k user_buf max_entries (child # rest) counter =
          (case validate_dst H (regions k) (dst_of user_buf counter) of
             None \<Rightarrow> Inr (\<lparr>code = not_supported, data = 0\<rparr>, k\<lparr>visited := visited k @ [child]\<rparr>)
           | Some kdst \<Rightarrow>
               readdir_loop H
                 (k\<lparr>visited := visited k @ [child],
                    copied := copied k @ [(kdst, entry_for child)]\<rparr>)
                 user_buf max_entries rest (counter + 1))"
    if "counter < max_entries"
    using that by (simp add: build_dirent_entry dst_of_def not_le [symmetric] split: option.split)
  from 1 2 3 show ?thesis by blast
qed

text \<open>
  C1. The claim is what the check of line 138 is for, and the code misses it where the
  64-bit sum wraps. A writable region ends one byte below \<open>2^64\<close> and the destination lies
  in it, 15 bytes before its end. The destination plus the record size, 72, exceeds the
  region's base plus size, so the claim has the call return \<open>not_supported\<close>. In the code
  the sum \<open>dst_address + sizeof(dirent)\<close> wraps to \<open>0x38\<close>, the check passes, and
  \<open>do_readdir\<close> returns \<open>ok\<close> after copying the 72 bytes of the record to the kernel
  address of the destination.
\<close>

theorem validate_dst_overrun_at_top:
  "get_region_from_address [high_region] 0xFFFFFFFFFFFFFFF0 = Some high_region
   \<and> contains high_region 0xFFFFFFFFFFFFFFF0
   \<and> unat (base high_region) + unat (rgn_size high_region)
       < unat (0xFFFFFFFFFFFFFFF0 :: u64) + unat sizeof_dirent
   \<and> unat (base high_region) + unat (rgn_size high_region) - unat (0xFFFFFFFFFFFFFFF0 :: u64) = 15
   \<and> (0xFFFFFFFFFFFFFFF0 :: u64) + sizeof_dirent = 0x38
   \<and> validate_dst example_headers [high_region] 0xFFFFFFFFFFFFFFF0 = Some 0x4FF0
   \<and> do_readdir example_headers (example_kernel\<lparr>regions := [high_region]\<rparr>) (Some ''/docs'')
        0xFFFFFFFFFFFFFFF0 1 =
       Inr (\<lparr>code = ok, data = 1\<rparr>,
            example_kernel\<lparr>regions := [high_region], lookups := [''/docs''], visited := [a_txt],
              copied := [(0x4FF0, \<lparr>ent_name = ''a.txt'' @ replicate 59 NUL,
                                   ent_type = CHR ''f'', ent_size = 120\<rparr>)]\<rparr>)"
  by (simp add: do_readdir_def vfs_lookup_def example_defs validate_defs build_dirent_entry
      entry_for_def high_region_def)

section \<open>The dispatcher\<close>

text \<open>
  C7. For an opcode that is the value of no enumerator, \<open>handle_syscall\<close> returns, for all
  arguments, the result \<open>not_supported\<close> with \<open>data = 0\<close>, no fault, after logging the
  opcode.
\<close>

theorem handle_syscall_unrecognised:
  assumes "\<forall>s. num H s \<noteq> index"
  shows "handle_syscall H k index arg0 arg1 arg2 arg3 =
     Inr (\<lparr>code = not_supported, data = 0\<rparr>,
          emit k [Dprintf (''ERROR: unsupported syscall: %lx'' @ [CHR 0x0A]) [index]])"
  using decode_None [OF assms] by (simp add: handle_syscall_def)

theorem handle_syscall_unrecognised_witness:
  "handle_syscall example_headers example_kernel 19 1 2 3 4 =
     Inr (\<lparr>code = not_supported, data = 0\<rparr>,
          example_kernel\<lparr>events :=
            [Dprintf (''ERROR: unsupported syscall: %lx'' @ [CHR 0x0A]) [19]]\<rparr>)"
proof -
  have "num example_headers s \<noteq> 19" for s
    by (cases s) (simp_all add: example_headers_def)
  then have "\<forall>s. num example_headers s \<noteq> 19" by blast
  from handle_syscall_unrecognised [OF this, of example_kernel 1 2 3 4]
  show ?thesis by (simp add: emit_def example_kernel_def)
qed

text \<open>
  C8. For \<open>write\<close>, \<open>pwrite\<close>, \<open>read\<close>, \<open>pread\<close>, \<open>ioctl\<close>, \<open>wait_for_process\<close> and
  \<open>join_thread\<close>: when the handle \<open>arg0\<close> has no object the result is \<open>not_found\<close> with
  \<open>data = 0\<close>, and otherwise the translated result of the object's operation. \<open>close\<close>
  returns \<open>ok\<close> with \<open>data = 0\<close> whatever the handle, also when it is closed again.
\<close>

theorem handle_syscall_handles:
  assumes "inj (num H)"
  shows "handle_syscall H k (num H sys_write) arg0 arg1 arg2 arg3 =
       Inr (case objects k arg0 of
              None \<Rightarrow> (\<lparr>code = not_found, data = 0\<rparr>, k)
            | Some ob \<Rightarrow>
                (operation_result_to_syscall_result H (obj_write ob arg1 arg2),
                 emit k [Object_call sys_write arg0 [arg1, arg2]]))
   \<and> handle_syscall H k (num H sys_pwrite) arg0 arg1 arg2 arg3 =
       Inr (case objects k arg0 of
              None \<Rightarrow> (\<lparr>code = not_found, data = 0\<rparr>, k)
            | Some ob \<Rightarrow>
                (operation_result_to_syscall_result H (obj_pwrite ob arg1 arg2 arg3),
                 emit k [Object_call sys_pwrite arg0 [arg1, arg2, arg3]]))
   \<and> handle_syscall H k (num H sys_read) arg0 arg1 arg2 arg3 =
       Inr (case objects k arg0 of
              None \<Rightarrow> (\<lparr>code = not_found, data = 0\<rparr>, k)
            | Some ob \<Rightarrow>
                (operation_result_to_syscall_result H (obj_read ob arg1 arg2),
                 emit k [Object_call sys_read arg0 [arg1, arg2]]))
   \<and> handle_syscall H k (num H sys_pread) arg0 arg1 arg2 arg3 =
       Inr (case objects k arg0 of
              None \<Rightarrow> (\<lparr>code = not_found, data = 0\<rparr>, k)
            | Some ob \<Rightarrow>
                (operation_result_to_syscall_result H (obj_pread ob arg1 arg2 arg3),
                 emit k [Object_call sys_pread arg0 [arg1, arg2, arg3]]))
   \<and> handle_syscall H k (num H sys_ioctl) arg0 arg1 arg2 arg3 =
       Inr (case objects k arg0 of
              None \<Rightarrow> (\<lparr>code = not_found, data = 0\<rparr>, k)
            | Some ob \<Rightarrow>
                (operation_result_to_syscall_result H (obj_ioctl ob arg1 arg2 arg3),
                 emit k [Object_call sys_ioctl arg0 [arg1, arg2, arg3]]))
   \<and> handle_syscall H k (num H wait_for_process) arg0 arg1 arg2 arg3 =
       Inr (case objects k arg0 of
              None \<Rightarrow> (\<lparr>code = not_found, data = 0\<rparr>, k)
            | Some ob \<Rightarrow>
                (operation_result_to_syscall_result H (wait_for_status_change ob),
                 emit k [Object_call wait_for_process arg0 []]))
   \<and> handle_syscall H k (num H join_thread) arg0 arg1 arg2 arg3 =
       Inr (case objects k arg0 of
              None \<Rightarrow> (\<lparr>code = not_found, data = 0\<rparr>, k)
            | Some ob \<Rightarrow>
                (operation_result_to_syscall_result H (join ob),
                 emit k [Object_call join_thread arg0 []]))
   \<and> handle_syscall H k (num H sys_close) arg0 arg1 arg2 arg3 =
       Inr (\<lparr>code = ok, data = 0\<rparr>, free_object k arg0)
   \<and> handle_syscall H (free_object k arg0) (num H sys_close) arg0 arg1 arg2 arg3 =
       Inr (\<lparr>code = ok, data = 0\<rparr>, free_object (free_object k arg0) arg0)"
  by (simp add: handle_syscall_def decode_num [OF assms] forward_def split: option.split)

theorem handle_syscall_handles_witness:
  "handle_syscall example_headers example_kernel 5 1 0x10000 12 0 =
     Inr (\<lparr>code = ok, data = 12\<rparr>,
          example_kernel\<lparr>events := [Object_call sys_write 1 [0x10000, 12]]\<rparr>)
   \<and> handle_syscall example_headers example_kernel 5 8 0x10000 12 0 =
     Inr (\<lparr>code = not_found, data = 0\<rparr>, example_kernel)
   \<and> handle_syscall example_headers example_kernel 9 1 0 0 0 =
     Inr (\<lparr>code = not_supported, data = 0\<rparr>,
          example_kernel\<lparr>events := [Object_call sys_ioctl 1 [0, 0, 0]]\<rparr>)
   \<and> handle_syscall example_headers example_kernel 15 1 0 0 0 =
     Inr (\<lparr>code = ok, data = 9\<rparr>,
          example_kernel\<lparr>events := [Object_call join_thread 1 []]\<rparr>)
   \<and> handle_syscall example_headers example_kernel 4 1 0 0 0 =
     Inr (\<lparr>code = ok, data = 0\<rparr>, free_object example_kernel 1)
   \<and> handle_syscall example_headers example_kernel 4 8 0 0 0 =
     Inr (\<lparr>code = ok, data = 0\<rparr>, free_object example_kernel 8)"
proof -
  note t = handle_syscall_handles [OF inj_example_num, of example_kernel]
  have n: "num example_headers sys_write = 5" "num example_headers sys_ioctl = 9"
    "num example_headers join_thread = 15" "num example_headers sys_close = 4"
    by (simp_all add: example_headers_def)
  have o: "objects example_kernel 1 = Some example_object" "objects example_kernel 8 = None"
    by (simp_all add: example_kernel_def)
  have c: "cast_code example_headers 0 = ok" "cast_code example_headers 2 = not_supported"
    by (simp_all add: example_headers_def)
  show ?thesis
    using t [of 1 "0x10000" 12 0] t [of 8 "0x10000" 12 0] t [of 1 0 0 0] t [of 8 0 0 0]
    by (simp add: n o c operation_result_to_syscall_result_def example_object_def emit_def
        example_kernel_def)
qed

section \<open>The command line of \<open>ls\<close>\<close>

text \<open>
  C9, as stated, fails for a single word of 128 characters: it is cut at the 127th and
  read as two words, so \<open>main\<close> prints the usage message and exits with status 1, where
  listing the word as a path in short form would have printed what \<open>ls\<close> prints and
  exited with 0.
\<close>

theorem ls_main_long_word_counterexample:
  "main no_directory (Some (replicate 128 (CHR ''a''))) =
     (1, [Write (''usage: ls [-l] <directory>'' @ [CHR 0x0A])])
   \<and> ls no_directory 0 (replicate 128 (CHR ''a'')) =
     [Write (''ls: failed to read directory'' @ [CHR 0x0A])]"
  by code_simp

text \<open>
  C9, amended. For a command line of at most two words, each without a space and of at most
  127 characters, separated by spaces, with no space before the first: a null or blank
  line lists the root in short form; \<open>-l\<close> alone the root in long form; another single
  word that path in short form; \<open>-l\<close> and a word that path in long form; any other two
  words print the usage message and exit with status 1; the other forms exit with 0.
\<close>

theorem ls_main_dispatch:
  assumes "word_ok t1" and "word_ok t2"
  shows "main rd None = (0, ls rd 0 [])
    \<and> main rd (Some (replicate n (CHR '' ''))) = (0, ls rd 0 [])
    \<and> main rd (Some (t1 @ replicate n (CHR '' ''))) =
        (if t1 = ''-l'' then (0, ls rd 1 []) else (0, ls rd 0 t1))
    \<and> main rd (Some (t1 @ replicate (Suc m) (CHR '' '') @ t2 @ replicate n (CHR '' ''))) =
        (if t1 = ''-l'' then (0, ls rd 1 t2)
         else (1, [Write (''usage: ls [-l] <directory>'' @ [CHR 0x0A])]))"
proof -
  let ?sp = "CHR '' ''"
  from assms have t1: "t1 \<noteq> []" "?sp \<notin> set t1" "0 + length t1 \<le> 127"
    and t2: "t2 \<noteq> []" "?sp \<notin> set t2" "0 + length t2 \<le> 127"
    by (simp_all add: word_ok_def)
  have tail: "r = [] \<or> hd r = ?sp" if "r = replicate k ?sp" for r k
    using that by (cases k) auto
  have none: "main rd None = (0, ls rd 0 [])" by (simp add: main_def)
  have e0: "extract_word (replicate k ?sp) 0 = ([], replicate k ?sp)" for k
    by (cases k) auto
  have blank: "main rd (Some (replicate n ?sp)) = (0, ls rd 0 [])"
    using skip_spaces_replicate [of n "[]"] by (simp add: main_def e0)
  have w1: "extract_word (t1 @ replicate n ?sp) 0 = (t1, replicate n ?sp)"
    by (rule extract_word_word [OF t1(2,3) tail]) simp
  have one: "main rd (Some (t1 @ replicate n ?sp)) =
        (if t1 = ''-l'' then (0, ls rd 1 []) else (0, ls rd 0 t1))"
    using t1(1) skip_spaces_replicate [of n "[]"] by (simp add: main_def w1)
  let ?rest = "replicate (Suc m) ?sp @ t2 @ replicate n ?sp"
  have w1': "extract_word (t1 @ ?rest) 0 = (t1, ?rest)"
    by (rule extract_word_word [OF t1(2,3)]) simp
  have "hd (t2 @ replicate n ?sp) \<noteq> ?sp" using t2(1,2) by (cases t2) auto
  then have sk: "skip_spaces ?rest = t2 @ replicate n ?sp"
    using skip_spaces_replicate [of "Suc m" "t2 @ replicate n ?sp"] skip_spaces_word by simp
  have w2: "extract_word (t2 @ replicate n ?sp) 0 = (t2, replicate n ?sp)"
    by (rule extract_word_word [OF t2(2,3) tail]) simp
  have two: "main rd (Some (t1 @ ?rest)) =
        (if t1 = ''-l'' then (0, ls rd 1 t2)
         else (1, [Write (''usage: ls [-l] <directory>'' @ [CHR 0x0A])]))"
    using t1(1) t2(1) by (simp add: main_def w1' sk w2 del: replicate_Suc)
  from none blank one two show ?thesis by simp
qed

theorem ls_main_dispatch_witness:
  "main no_directory (Some ''-l'') = (0, ls no_directory 1 [])
   \<and> main no_directory (Some ''/docs'') = (0, ls no_directory 0 ''/docs'')
   \<and> main no_directory (Some ''-l /docs'') = (0, ls no_directory 1 ''/docs'')
   \<and> main no_directory (Some ''/docs -l'') = (1, [Write (''usage: ls [-l] <directory>'' @ [CHR 0x0A])])
   \<and> main no_directory (Some ''  '') = (0, ls no_directory 0 [])"
proof -
  have a: "word_ok ''-l''" and b: "word_ok ''/docs''" by (simp_all add: word_ok_def)
  show ?thesis
    using ls_main_dispatch [OF a b, of no_directory 0 0]
      ls_main_dispatch [OF b a, of no_directory 0 0]
      ls_main_dispatch [OF a b, of no_directory 2 0]
    by (simp add: numeral_2_eq_2)
qed

end
